theory Spec2Isabelle
  imports Complex_Main
begin

section \<open>The localizer (utils/localizer.ts)\<close>

text \<open>
  The interface \<^verbatim>\<open>Translation\<close> is a plain object with twenty-eight string
  properties; it becomes a record with one field per property, in the order of
  the interface.
\<close>

record Translation =
  alertOnLaunchModLoader :: string
  alertOnFailedAddProfile :: string
  alertOnFailedLaunchModLoader :: string
  appTitle :: string
  close :: string
  complete :: string
  error :: string
  install :: string
  installFailed :: string
  installerTitle :: string
  languageOptionEn :: string
  languageOptionJa :: string
  languageSelectionLabel :: string
  occurredError :: string
  openLogFolder :: string
  phaseAddProfile :: string
  phaseDownloadModLoader :: string
  phaseDownloadMods :: string
  phaseDownloadResources :: string
  phaseFinishInstall :: string
  phaseFinishUpdate :: string
  phaseLaunchModLoader :: string
  phaseRemoveMods :: string
  phaseStart :: string
  phaseUpdateSettings :: string
  titleMessage :: string
  update :: string
  updateFailed :: string

text \<open>
  The English table \<^verbatim>\<open>translations.en\<close>, property by property. (The Japanese
  table has the same shape; every function below takes the table as an
  argument, so nothing depends on which of the two is active.)
\<close>

definition translations_en :: Translation where
  "translations_en = \<lparr>
     alertOnLaunchModLoader = ''The mod loader will be launched. Please ensure that 'Install client' is checked, then click 'Next'.'',
     alertOnFailedAddProfile = ''Failed to add profile. Please launch the Minecraft launcher and add it manually.'',
     alertOnFailedLaunchModLoader = ''Failed to launch mod loader. Please run the downloaded mod loader manually.'',
     appTitle = ''Makibania Modpack Installer'',
     close = ''Close'',
     complete = ''Complete'',
     error = ''Error'',
     install = ''Install'',
     installFailed = ''Installation failed.\<newline>Details: '',
     installerTitle = ''Installer'',
     languageOptionEn = ''English'',
     languageOptionJa = ''Japanese'',
     languageSelectionLabel = ''Display language'',
     occurredError = ''An error has occurred.\<newline>Details: '',
     openLogFolder = ''Open log folder'',
     phaseAddProfile = ''Adding profile...'',
     phaseDownloadModLoader = ''Downloading mod loader...'',
     phaseDownloadMods = ''Downloading mods...'',
     phaseDownloadResources = ''Downloading resources...'',
     phaseFinishInstall = ''Installation finished.'',
     phaseFinishUpdate = ''Update finished.'',
     phaseLaunchModLoader = ''Launching mod loader...'',
     phaseRemoveMods = ''Removing unnecessary mods...'',
     phaseStart = ''Starting installation...'',
     phaseUpdateSettings = ''Updating settings...'',
     titleMessage = ''Choose how you want to proceed.'',
     update = ''Update'',
     updateFailed = ''Update failed.\<newline>Details: ''
   \<rparr>"

text \<open>
  The own properties of a translation object as an association list, and the
  dynamic access \<^verbatim>\<open>translation[key]\<close>: the property's string when the
  object has the key, \<^verbatim>\<open>undefined\<close> (here \<open>None\<close>) when it has not. Names
  that a JavaScript object inherits from \<^verbatim>\<open>Object.prototype\<close> are not
  modelled.
\<close>

definition properties :: "Translation \<Rightarrow> (string \<times> string) list" where
  "properties t =
    [(''alertOnLaunchModLoader'', alertOnLaunchModLoader t),
     (''alertOnFailedAddProfile'', alertOnFailedAddProfile t),
     (''alertOnFailedLaunchModLoader'', alertOnFailedLaunchModLoader t),
     (''appTitle'', appTitle t),
     (''close'', close t),
     (''complete'', complete t),
     (''error'', error t),
     (''install'', install t),
     (''installFailed'', installFailed t),
     (''installerTitle'', installerTitle t),
     (''languageOptionEn'', languageOptionEn t),
     (''languageOptionJa'', languageOptionJa t),
     (''languageSelectionLabel'', languageSelectionLabel t),
     (''occurredError'', occurredError t),
     (''openLogFolder'', openLogFolder t),
     (''phaseAddProfile'', phaseAddProfile t),
     (''phaseDownloadModLoader'', phaseDownloadModLoader t),
     (''phaseDownloadMods'', phaseDownloadMods t),
     (''phaseDownloadResources'', phaseDownloadResources t),
     (''phaseFinishInstall'', phaseFinishInstall t),
     (''phaseFinishUpdate'', phaseFinishUpdate t),
     (''phaseLaunchModLoader'', phaseLaunchModLoader t),
     (''phaseRemoveMods'', phaseRemoveMods t),
     (''phaseStart'', phaseStart t),
     (''phaseUpdateSettings'', phaseUpdateSettings t),
     (''titleMessage'', titleMessage t),
     (''update'', update t),
     (''updateFailed'', updateFailed t)]"

definition getProperty :: "Translation \<Rightarrow> string \<Rightarrow> string option" where
  "getProperty t key = map_of (properties t) key"


section \<open>The installer screen (components/screens/InstallerScreen.tsx)\<close>

subsection \<open>Wire and state types\<close>

datatype InstallerMode = Install | Update

datatype AlertLevel = Info | Warning

text \<open>
  The payload of an \<^verbatim>\<open>installer://event\<close> message. The phase of a
  \<^verbatim>\<open>changePhase\<close> event arrives as a string: the TypeScript union of seven
  literals is not checked when the message is decoded, so the model keeps the
  string. A JavaScript \<^verbatim>\<open>number\<close> is modelled as a real, with the product
  \<^verbatim>\<open>progress * 100\<close> exact (IEEE rounding of the product is not modelled).
\<close>

datatype InstallerEvent =
    ChangePhase string
  | ChangeDetail string
  | UpdateProgress real
  | AddAlert AlertLevel string

text \<open>
  \<^verbatim>\<open>AlertInfo\<close>: the message is whatever the table lookup returned, so it can
  be \<^verbatim>\<open>undefined\<close>.
\<close>

record AlertInfo =
  level :: AlertLevel
  message :: "string option"

text \<open>How far the asynchronous function \<^verbatim>\<open>runInstaller\<close> has come, with
  the \<^verbatim>\<open>props.mode\<close> its closure captured.\<close>

datatype RunTask =
    NotStarted
  | AwaitingListen InstallerMode
  | AwaitingRun InstallerMode
  | Settled

text \<open>
  One mounted \<^verbatim>\<open>InstallerScreen\<close>: the six \<^verbatim>\<open>useState\<close> cells, the ref
  \<^verbatim>\<open>isInstalling\<close>, the closure variable \<^verbatim>\<open>unlisten\<close> (is it assigned),
  whether the listener is registered on the channel, the progress of
  \<^verbatim>\<open>runInstaller\<close>, and the log of \<^verbatim>\<open>run_installer\<close> invocations made so
  far (each with its mode argument).
\<close>

record InstallerScreen =
  phase :: string
  detail :: string
  progress :: int
  isFinished :: bool
  alerts :: "AlertInfo list"
  errorMessage :: "string option"
  isInstalling :: bool
  unlisten :: bool
  listening :: bool
  task :: RunTask
  invoked :: "InstallerMode list"

definition initialScreen :: "Translation \<Rightarrow> InstallerScreen" where
  "initialScreen t = \<lparr>
     phase = phaseStart t, detail = '''', progress = 0, isFinished = False,
     alerts = [], errorMessage = None,
     isInstalling = False, unlisten = False, listening = False,
     task = NotStarted, invoked = [] \<rparr>"


subsection \<open>The event listener\<close>

text \<open>\<^verbatim>\<open>Math.round\<close>: the nearest integer, a tie going up.\<close>

definition Math_round :: "real \<Rightarrow> int" where
  "Math_round x = \<lfloor>x + 1 / 2\<rfloor>"

text \<open>The seven cases of the inner \<^verbatim>\<open>switch (payload.phase)\<close>, in its
  order: the label handed to \<^verbatim>\<open>setPhase\<close>, or \<open>None\<close> where no case matches
  (the switch has no default).\<close>

definition phaseLabel :: "Translation \<Rightarrow> string \<Rightarrow> string option" where
  "phaseLabel t tag =
    (if tag = ''downloadModLoader'' then Some (phaseDownloadModLoader t)
     else if tag = ''removeMods'' then Some (phaseRemoveMods t)
     else if tag = ''downloadMods'' then Some (phaseDownloadMods t)
     else if tag = ''downloadResources'' then Some (phaseDownloadResources t)
     else if tag = ''updateSettings'' then Some (phaseUpdateSettings t)
     else if tag = ''addProfile'' then Some (phaseAddProfile t)
     else if tag = ''launchModLoader'' then Some (phaseLaunchModLoader t)
     else None)"

definition phaseTags :: "string list" where
  "phaseTags = [''downloadModLoader'', ''removeMods'', ''downloadMods'',
     ''downloadResources'', ''updateSettings'', ''addProfile'', ''launchModLoader'']"

text \<open>The callback given to \<^verbatim>\<open>listen\<close>: the outer \<^verbatim>\<open>switch (payload.type)\<close>.\<close>

fun onEvent :: "Translation \<Rightarrow> InstallerEvent \<Rightarrow> InstallerScreen \<Rightarrow> InstallerScreen" where
  "onEvent t (ChangePhase tag) s =
     (case phaseLabel t tag of
        Some label \<Rightarrow> s\<lparr>detail := '''', phase := label\<rparr>
      | None \<Rightarrow> s\<lparr>detail := ''''\<rparr>)"
| "onEvent t (ChangeDetail d) s = s\<lparr>detail := d\<rparr>"
| "onEvent t (UpdateProgress p) s = s\<lparr>progress := Math_round (p * 100)\<rparr>"
| "onEvent t (AddAlert lv key) s =
     s\<lparr>alerts := alerts s @ [\<lparr>level = lv, message = getProperty t key\<rparr>]\<rparr>"


subsection \<open>The effect, the run and the other callbacks\<close>

text \<open>
  Values that a rejected \<^verbatim>\<open>invoke\<close> may hand to \<^verbatim>\<open>catch\<close>, and the
  builtin \<^verbatim>\<open>String(value)\<close> on them (for an \<^verbatim>\<open>Error\<close>, its name and
  message as \<^verbatim>\<open>Error.prototype.toString\<close> joins them).
\<close>

datatype JSValue =
    JSUndefined
  | JSNull
  | JSBoolean bool
  | JSString string
  | JSObject
  | JSError string string

fun String_js :: "JSValue \<Rightarrow> string" where
  "String_js JSUndefined = ''undefined''"
| "String_js JSNull = ''null''"
| "String_js (JSBoolean b) = (if b then ''true'' else ''false'')"
| "String_js (JSString str) = str"
| "String_js JSObject = ''[object Object]''"
| "String_js (JSError name msg) =
     (if name = '''' then msg else if msg = '''' then name else name @ '': '' @ msg)"

text \<open>The argument of \<^verbatim>\<open>setErrorMessage\<close> in the \<^verbatim>\<open>catch\<close> branch:
  \<^verbatim>\<open>typeof e === "string" ? e : String(e)\<close>.\<close>

definition caughtMessage :: "JSValue \<Rightarrow> string" where
  "caughtMessage e = (case e of JSString str \<Rightarrow> str | _ \<Rightarrow> String_js e)"

text \<open>
  The body of \<^verbatim>\<open>useEffect\<close>, run with the \<^verbatim>\<open>props.mode\<close> of the render
  it belongs to: nothing when the ref is set; otherwise it sets the ref and
  starts \<^verbatim>\<open>runInstaller\<close>, which first awaits \<^verbatim>\<open>listen\<close>.
\<close>

definition effect :: "InstallerMode \<Rightarrow> InstallerScreen \<Rightarrow> InstallerScreen" where
  "effect mode s =
    (if isInstalling s then s
     else s\<lparr>isInstalling := True, task := AwaitingListen mode\<rparr>)"

text \<open>\<^verbatim>\<open>await listen(...)\<close> resolves: the handle is stored in
  \<^verbatim>\<open>unlisten\<close>, the listener is registered, and \<^verbatim>\<open>run_installer\<close> is
  invoked with the captured mode.\<close>

definition listenResolved :: "InstallerScreen \<Rightarrow> InstallerScreen" where
  "listenResolved s =
    (case task s of
       AwaitingListen mode \<Rightarrow>
         s\<lparr>unlisten := True, listening := True,
           task := AwaitingRun mode, invoked := invoked s @ [mode]\<rparr>
     | _ \<Rightarrow> s)"

text \<open>The channel delivers an event: the callback runs if it is registered.\<close>

definition deliver :: "Translation \<Rightarrow> InstallerEvent \<Rightarrow> InstallerScreen \<Rightarrow> InstallerScreen" where
  "deliver t e s = (if listening s then onEvent t e s else s)"

text \<open>\<^verbatim>\<open>await invoke("run_installer", ...)\<close> returns: the rest of the
  \<^verbatim>\<open>try\<close> block.\<close>

definition runResolved :: "Translation \<Rightarrow> InstallerScreen \<Rightarrow> InstallerScreen" where
  "runResolved t s =
    (case task s of
       AwaitingRun mode \<Rightarrow>
         s\<lparr>phase := (if mode = Install then phaseFinishInstall t else phaseFinishUpdate t),
           detail := '''', isFinished := True, task := Settled\<rparr>
     | _ \<Rightarrow> s)"

text \<open>\<^verbatim>\<open>await invoke("run_installer", ...)\<close> throws \<open>e\<close>: the \<^verbatim>\<open>catch\<close>
  block.\<close>

definition runRejected :: "JSValue \<Rightarrow> InstallerScreen \<Rightarrow> InstallerScreen" where
  "runRejected e s =
    (case task s of
       AwaitingRun mode \<Rightarrow> s\<lparr>errorMessage := Some (caughtMessage e), task := Settled\<rparr>
     | _ \<Rightarrow> s)"

text \<open>The function the effect returns: \<^verbatim>\<open>if (unlisten) unlisten()\<close>.\<close>

definition cleanup :: "InstallerScreen \<Rightarrow> InstallerScreen" where
  "cleanup s = (if unlisten s then s\<lparr>listening := False\<rparr> else s)"

text \<open>\<^verbatim>\<open>alerts.filter((_, i) => i !== index)\<close>, the \<^verbatim>\<open>onClose\<close> of the
  alert rendered at position \<open>index\<close>.\<close>

definition filterIndex :: "nat \<Rightarrow> 'a list \<Rightarrow> 'a list" where
  "filterIndex index xs = map snd (filter (\<lambda>(i, _). i \<noteq> index) (enumerate 0 xs))"

definition onClose :: "nat \<Rightarrow> InstallerScreen \<Rightarrow> InstallerScreen" where
  "onClose index s = s\<lparr>alerts := filterIndex index (alerts s)\<rparr>"

text \<open>\<^verbatim>\<open>handleClose\<close>, as far as this component's state goes (it then calls
  \<^verbatim>\<open>props.onDismissError\<close>).\<close>

definition handleClose :: "InstallerScreen \<Rightarrow> InstallerScreen" where
  "handleClose s = s\<lparr>errorMessage := None\<rparr>"

text \<open>Everything that can happen to a mounted screen, and the screen after a
  list of such happenings.\<close>

datatype Action =
    EffectRun InstallerMode
  | ListenResolved
  | Emit InstallerEvent
  | RunResolved
  | RunRejected JSValue
  | EffectCleanup
  | AlertClose nat
  | DialogClose

fun step :: "Translation \<Rightarrow> Action \<Rightarrow> InstallerScreen \<Rightarrow> InstallerScreen" where
  "step t (EffectRun mode) s = effect mode s"
| "step t ListenResolved s = listenResolved s"
| "step t (Emit e) s = deliver t e s"
| "step t RunResolved s = runResolved t s"
| "step t (RunRejected e) s = runRejected e s"
| "step t EffectCleanup s = cleanup s"
| "step t (AlertClose index) s = onClose index s"
| "step t DialogClose s = handleClose s"

definition run :: "Translation \<Rightarrow> Action list \<Rightarrow> InstallerScreen \<Rightarrow> InstallerScreen" where
  "run t as s = fold (step t) as s"


subsection \<open>What the screen shows\<close>

text \<open>The run's outcome as the render reads it: the error dialog is open when
  \<^verbatim>\<open>errorMessage\<close> is not null, the Complete button replaces the progress bar
  when \<^verbatim>\<open>isFinished\<close> is set.\<close>

datatype Outcome = Running | Finished | Errored string

definition outcome :: "InstallerScreen \<Rightarrow> Outcome" where
  "outcome s =
    (case errorMessage s of
       Some msg \<Rightarrow> Errored msg
     | None \<Rightarrow> if isFinished s then Finished else Running)"

text \<open>The text of the error dialog, for the \<^verbatim>\<open>props.mode\<close> of the render.\<close>

definition dialogContentText :: "Translation \<Rightarrow> InstallerMode \<Rightarrow> InstallerScreen \<Rightarrow> string" where
  "dialogContentText t mode s =
    (if mode = Install then installFailed t else updateFailed t)
      @ (case errorMessage s of None \<Rightarrow> '''' | Some msg \<Rightarrow> msg)"




section \<open>The application shell (App.tsx)\<close>

datatype Screen = Title | Installer

datatype Language = Ja | En

record TitleStatus =
  isExistsConfig :: bool

text \<open>\<^verbatim>\<open>ModeResult\<close>; its optional property \<^verbatim>\<open>error\<close> is \<open>error'\<close> here.\<close>

record ModeResult =
  isAccept :: bool
  error' :: "string option"

text \<open>The state of \<^verbatim>\<open>App\<close>; its \<^verbatim>\<open>errorMessage\<close> is \<open>errorMessage'\<close> here.\<close>

record App =
  initializedStatus :: "TitleStatus option"
  language :: Language
  screen :: Screen
  installerMode :: "InstallerMode option"
  errorMessage' :: "string option"
  isInitialized :: bool

definition initialApp :: App where
  "initialApp = \<lparr> initializedStatus = None, language = Ja, screen = Title,
     installerMode = None, errorMessage' = None, isInitialized = False \<rparr>"

text \<open>\<^verbatim>\<open>x || d\<close> on an optional string: \<open>d\<close> when \<open>x\<close> is undefined or empty.\<close>

definition orElse :: "string option \<Rightarrow> string \<Rightarrow> string" where
  "orElse x d = (case x of None \<Rightarrow> d | Some str \<Rightarrow> if str = '''' then d else str)"

text \<open>\<^verbatim>\<open>onModeSelect\<close> from the point where \<^verbatim>\<open>select_mode\<close> has answered
  with \<open>result\<close>.\<close>

definition onModeSelect :: "Translation \<Rightarrow> InstallerMode \<Rightarrow> ModeResult \<Rightarrow> App \<Rightarrow> App" where
  "onModeSelect t mode result a =
    (if \<not> isAccept result
     then a\<lparr>errorMessage' := Some (occurredError t @ orElse (error' result) ''<unknown error>'')\<rparr>
     else a\<lparr>installerMode := Some mode, screen := Installer\<rparr>)"

definition onDismissError :: "App \<Rightarrow> App" where
  "onDismissError a = a\<lparr>installerMode := None, screen := Title\<rparr>"

text \<open>\<^verbatim>\<open>getScreen\<close>: which screen is rendered, the installer screen with the
  \<^verbatim>\<open>mode\<close> prop it receives.\<close>

datatype View = TitleScreenView | InstallerScreenView "InstallerMode option"

definition getScreen :: "App \<Rightarrow> View" where
  "getScreen a =
    (case screen a of
       Title \<Rightarrow> TitleScreenView
     | Installer \<Rightarrow> InstallerScreenView (installerMode a))"


section \<open>Invariants and example runs\<close>

text \<open>What the one-shot guard maintains: the ref is set exactly when
  \<^verbatim>\<open>runInstaller\<close> has been started, and \<^verbatim>\<open>run_installer\<close> has been invoked
  once when the task is past \<^verbatim>\<open>listen\<close>, never before.\<close>

definition guardInv :: "InstallerScreen \<Rightarrow> bool" where
  "guardInv s =
    (case task s of
       NotStarted \<Rightarrow> \<not> isInstalling s \<and> invoked s = []
     | AwaitingListen mode \<Rightarrow> isInstalling s \<and> invoked s = []
     | AwaitingRun mode \<Rightarrow> isInstalling s \<and> invoked s = [mode]
     | Settled \<Rightarrow> isInstalling s \<and> length (invoked s) = 1)"

text \<open>The mode a started run works with is \<open>mode\<close>.\<close>

definition runsWith :: "InstallerMode \<Rightarrow> InstallerScreen \<Rightarrow> bool" where
  "runsWith mode s =
    (isInstalling s \<and>
     (case task s of
        NotStarted \<Rightarrow> False
      | AwaitingListen m \<Rightarrow> m = mode \<and> invoked s = []
      | AwaitingRun m \<Rightarrow> m = mode \<and> invoked s = [mode]
      | Settled \<Rightarrow> invoked s = [mode]))"

text \<open>A screen whose listener is registered and whose run is in flight.\<close>

definition runningScreen :: InstallerScreen where
  "runningScreen =
     run translations_en [EffectRun Install, ListenResolved] (initialScreen translations_en)"

text \<open>Scenario A of the specification (an install that succeeds) and scenario B
  (an update that fails with the string \<^verbatim>\<open>disk full\<close>).\<close>

definition scenarioA :: "Action list" where
  "scenarioA =
     [EffectRun Install, ListenResolved,
      Emit (ChangePhase ''downloadModLoader''), Emit (UpdateProgress (1 / 2)),
      Emit (ChangePhase ''downloadMods''), Emit (UpdateProgress 1),
      RunResolved]"

definition scenarioB :: "Action list" where
  "scenarioB = [EffectRun Update, ListenResolved, RunRejected (JSString ''disk full'')]"

text \<open>Three alerts A, B and C.\<close>

definition alertA :: AlertInfo where
  "alertA = \<lparr>level = Info, message = Some ''A''\<rparr>"

definition alertB :: AlertInfo where
  "alertB = \<lparr>level = Warning, message = Some ''B''\<rparr>"

definition alertC :: AlertInfo where
  "alertC = \<lparr>level = Info, message = Some ''C''\<rparr>"

text \<open>The running screen after a progress report of one half; the screens at
  the end of scenario A and of scenario B.\<close>

definition halfwayScreen :: InstallerScreen where
  "halfwayScreen = step translations_en (Emit (UpdateProgress (1 / 2))) runningScreen"

definition finishedScreen :: InstallerScreen where
  "finishedScreen = run translations_en scenarioA (initialScreen translations_en)"

definition erroredScreen :: InstallerScreen where
  "erroredScreen = run translations_en scenarioB (initialScreen translations_en)"

text \<open>Scenario C: the engine declines the mode.\<close>

definition declined :: ModeResult where
  "declined = \<lparr>isAccept = False, error' = Some ''update is not available''\<rparr>"

definition accepted :: ModeResult where
  "accepted = \<lparr>isAccept = True, error' = None\<rparr>"

section \<open>Auxiliary facts\<close>

lemma phaseLabel_None_iff: "phaseLabel t tag = None \<longleftrightarrow> tag \<notin> set phaseTags"
  by (simp add: phaseLabel_def phaseTags_def)

lemma onEvent_frame:
  "isFinished (onEvent t e s) = isFinished s"
  "errorMessage (onEvent t e s) = errorMessage s"
  "isInstalling (onEvent t e s) = isInstalling s"
  "unlisten (onEvent t e s) = unlisten s"
  "listening (onEvent t e s) = listening s"
  "task (onEvent t e s) = task s"
  "invoked (onEvent t e s) = invoked s"
  by (cases e; simp split: option.splits)+

lemma step_frame_Emit:
  "isInstalling (deliver t e s) = isInstalling s"
  "task (deliver t e s) = task s"
  "invoked (deliver t e s) = invoked s"
  by (simp_all add: deliver_def onEvent_frame)

lemma filter_enumerate_above:
  "n < m \<Longrightarrow> filter (\<lambda>(i, _). i \<noteq> n) (enumerate m xs) = enumerate m xs"
  by (induction xs arbitrary: m) auto

lemma filter_enumerate_offset:
  "map snd (filter (\<lambda>(i, _). i \<noteq> n + k) (enumerate n xs)) = take k xs @ drop (Suc k) xs"
proof (induction xs arbitrary: n k)
  case Nil
  then show ?case by simp
next
  case (Cons x xs)
  show ?case
  proof (cases k)
    case 0
    then show ?thesis by (simp add: filter_enumerate_above)
  next
    case (Suc j)
    have "map snd (filter (\<lambda>(i, _). i \<noteq> Suc n + j) (enumerate (Suc n) xs))
            = take j xs @ drop (Suc j) xs"
      by (rule Cons.IH)
    with Suc show ?thesis by simp
  qed
qed

lemma filterIndex_take_drop: "filterIndex i xs = take i xs @ drop (Suc i) xs"
  using filter_enumerate_offset [of 0 i xs] by (simp add: filterIndex_def)

lemma run_Nil: "run t [] s = s"
  by (simp add: run_def)

lemma run_Cons: "run t (a # as) s = run t as (step t a s)"
  by (simp add: run_def)

lemma run_append: "run t (as @ bs) s = run t bs (run t as s)"
  by (simp add: run_def)

lemma guardInv_initial: "guardInv (initialScreen t)"
  by (simp add: guardInv_def initialScreen_def)

lemma guardInv_step: "guardInv s \<Longrightarrow> guardInv (step t a s)"
proof (cases a)
  case (Emit e)
  assume "guardInv s"
  then show ?thesis
    using Emit by (simp add: guardInv_def step_frame_Emit split: RunTask.splits)
qed (auto simp: guardInv_def effect_def listenResolved_def runResolved_def runRejected_def
       cleanup_def onClose_def handleClose_def split: RunTask.splits)

lemma guardInv_run: "guardInv s \<Longrightarrow> guardInv (run t as s)"
  by (induction as arbitrary: s) (simp_all add: run_Nil run_Cons guardInv_step)

lemma guardInv_invoked: "guardInv s \<Longrightarrow> length (invoked s) \<le> 1"
  by (auto simp: guardInv_def split: RunTask.splits)

lemma runsWith_step: "runsWith mode s \<Longrightarrow> runsWith mode (step t a s)"
proof (cases a)
  case (Emit e)
  assume "runsWith mode s"
  then show ?thesis
    using Emit by (simp add: runsWith_def step_frame_Emit split: RunTask.splits)
qed (auto simp: runsWith_def effect_def listenResolved_def runResolved_def runRejected_def
       cleanup_def onClose_def handleClose_def split: RunTask.splits)

lemma runsWith_run: "runsWith mode s \<Longrightarrow> runsWith mode (run t as s)"
  by (induction as arbitrary: s) (simp_all add: run_Nil run_Cons runsWith_step)

lemma runsWith_start: "runsWith mode (step t (EffectRun mode) (initialScreen t))"
  by (simp add: runsWith_def effect_def initialScreen_def)

lemma isInstalling_step: "isInstalling s \<Longrightarrow> isInstalling (step t a s)"
  by (cases a)
     (auto simp: effect_def listenResolved_def runResolved_def runRejected_def
       cleanup_def onClose_def handleClose_def step_frame_Emit split: RunTask.splits)


lemmas screen_defs =
  run_def initialScreen_def effect_def listenResolved_def deliver_def
  runResolved_def runRejected_def cleanup_def onClose_def handleClose_def
  Math_round_def phaseLabel_def caughtMessage_def outcome_def
  runningScreen_def halfwayScreen_def finishedScreen_def erroredScreen_def
  scenarioA_def scenarioB_def

lemma runningScreen_eq:
  "runningScreen = \<lparr>
     phase = phaseStart translations_en, detail = '''', progress = 0, isFinished = False,
     alerts = [], errorMessage = None,
     isInstalling = True, unlisten = True, listening = True,
     task = AwaitingRun Install, invoked = [Install] \<rparr>"
  by (simp add: screen_defs)

lemma finishedScreen_eq:
  "finishedScreen = \<lparr>
     phase = phaseFinishInstall translations_en, detail = '''', progress = 100,
     isFinished = True, alerts = [], errorMessage = None,
     isInstalling = True, unlisten = True, listening = True,
     task = Settled, invoked = [Install] \<rparr>"
  by (simp add: screen_defs)


section \<open>Phase changes\<close>

text \<open>
  C1, as amended. A \<^verbatim>\<open>changePhase\<close> event whose tag is one of the seven
  recognised identifiers sets the phase to the label of that tag in the active
  table and resets the detail to the empty string. The progress is not reset:
  it keeps the value it had. The seven tags map to the seven phase labels of
  the table, in the order of the switch.
\<close>

theorem changePhase_known_tag:
  assumes "tag \<in> set phaseTags"
  shows "phaseLabel t tag \<noteq> None
    \<and> phase (onEvent t (ChangePhase tag) s) = the (phaseLabel t tag)
    \<and> detail (onEvent t (ChangePhase tag) s) = ''''
    \<and> progress (onEvent t (ChangePhase tag) s) = progress s
    \<and> onEvent t (ChangePhase tag) s = s\<lparr>detail := '''', phase := the (phaseLabel t tag)\<rparr>
    \<and> map (phaseLabel t) phaseTags =
        [Some (phaseDownloadModLoader t), Some (phaseRemoveMods t),
         Some (phaseDownloadMods t), Some (phaseDownloadResources t),
         Some (phaseUpdateSettings t), Some (phaseAddProfile t),
         Some (phaseLaunchModLoader t)]"
proof -
  from assms have "phaseLabel t tag \<noteq> None"
    by (simp add: phaseLabel_None_iff)
  then obtain label where label: "phaseLabel t tag = Some label"
    by blast
  have labels: "map (phaseLabel t) phaseTags =
        [Some (phaseDownloadModLoader t), Some (phaseRemoveMods t),
         Some (phaseDownloadMods t), Some (phaseDownloadResources t),
         Some (phaseUpdateSettings t), Some (phaseAddProfile t),
         Some (phaseLaunchModLoader t)]"
    by (simp add: phaseLabel_def phaseTags_def)
  from label labels show ?thesis by simp
qed

theorem changePhase_known_tag_witness:
  "''downloadMods'' \<in> set phaseTags
   \<and> phase (onEvent translations_en (ChangePhase ''downloadMods'') halfwayScreen)
       = ''Downloading mods...''
   \<and> detail (onEvent translations_en (ChangePhase ''downloadMods'') halfwayScreen) = ''''
   \<and> progress (onEvent translations_en (ChangePhase ''downloadMods'') halfwayScreen) = 50"
proof -
  have mem: "''downloadMods'' \<in> set phaseTags"
    by (simp add: phaseTags_def)
  have lab: "the (phaseLabel translations_en ''downloadMods'') = ''Downloading mods...''"
    by (simp add: phaseLabel_def translations_en_def)
  have half: "progress halfwayScreen = 50"
    by (simp add: halfwayScreen_def runningScreen_eq deliver_def Math_round_def)
  from changePhase_known_tag [OF mem, of translations_en halfwayScreen] mem lab half
  show ?thesis by simp
qed

text \<open>
  C1 as stated fails: with the progress at 50, a \<^verbatim>\<open>changePhase\<close> event leaves
  it at 50 instead of resetting it to 0.
\<close>

theorem changePhase_progress_counterexample:
  "progress halfwayScreen = 50
   \<and> progress (step translations_en (Emit (ChangePhase ''downloadMods'')) halfwayScreen) = 50
   \<and> progress (step translations_en (Emit (ChangePhase ''downloadMods'')) halfwayScreen) \<noteq> 0"
  by (simp add: halfwayScreen_def runningScreen_eq deliver_def Math_round_def phaseLabel_def)

text \<open>
  C10. A \<^verbatim>\<open>changePhase\<close> event whose tag is none of the seven recognised
  identifiers resets the detail to the empty string and changes nothing else:
  phase, progress, alerts and outcome stay as they were, and the events that
  follow are processed as after any other event.
\<close>

theorem changePhase_unknown_tag:
  assumes "tag \<notin> set phaseTags"
  shows "onEvent t (ChangePhase tag) s = s\<lparr>detail := ''''\<rparr>
    \<and> detail (onEvent t (ChangePhase tag) s) = ''''
    \<and> phase (onEvent t (ChangePhase tag) s) = phase s
    \<and> progress (onEvent t (ChangePhase tag) s) = progress s
    \<and> alerts (onEvent t (ChangePhase tag) s) = alerts s
    \<and> outcome (onEvent t (ChangePhase tag) s) = outcome s
    \<and> run t (Emit (ChangePhase tag) # as) s
        = run t as (if listening s then s\<lparr>detail := ''''\<rparr> else s)"
proof -
  from assms have none: "phaseLabel t tag = None"
    by (simp add: phaseLabel_None_iff)
  then have ev: "onEvent t (ChangePhase tag) s = s\<lparr>detail := ''''\<rparr>"
    by simp
  have "run t (Emit (ChangePhase tag) # as) s
        = run t as (if listening s then s\<lparr>detail := ''''\<rparr> else s)"
    by (simp add: run_Cons deliver_def ev del: onEvent.simps)
  with ev show ?thesis
    by (simp add: outcome_def del: onEvent.simps)
qed

theorem changePhase_unknown_tag_witness:
  "''bogus'' \<notin> set phaseTags
   \<and> onEvent translations_en (ChangePhase ''bogus'') halfwayScreen
       = halfwayScreen\<lparr>detail := ''''\<rparr>
   \<and> progress (run translations_en
        [Emit (ChangePhase ''bogus''), Emit (UpdateProgress 1)] halfwayScreen) = 100"
proof -
  have notin: "''bogus'' \<notin> set phaseTags"
    by (simp add: phaseTags_def)
  have listen: "listening halfwayScreen"
    by (simp add: halfwayScreen_def runningScreen_eq deliver_def)
  have after: "progress (run translations_en [Emit (UpdateProgress 1)]
                 (halfwayScreen\<lparr>detail := ''''\<rparr>)) = 100"
    by (simp add: run_def deliver_def listen Math_round_def)
  from changePhase_unknown_tag [OF notin, of translations_en halfwayScreen
         "[Emit (UpdateProgress 1)]"] notin listen after
  show ?thesis by simp
qed

text \<open>
  C5, as amended. A \<^verbatim>\<open>changePhase\<close> event whose tag is none of the seven
  recognised identifiers is not treated as an error: no error message is set,
  the outcome is what it was, the run stays in flight and the listener stays
  registered.
\<close>

theorem unknown_tag_not_fatal:
  assumes "tag \<notin> set phaseTags"
  shows "errorMessage (step t (Emit (ChangePhase tag)) s) = errorMessage s
    \<and> isFinished (step t (Emit (ChangePhase tag)) s) = isFinished s
    \<and> outcome (step t (Emit (ChangePhase tag)) s) = outcome s
    \<and> task (step t (Emit (ChangePhase tag)) s) = task s
    \<and> listening (step t (Emit (ChangePhase tag)) s) = listening s"
proof -
  from assms have "phaseLabel t tag = None"
    by (simp add: phaseLabel_None_iff)
  then have "onEvent t (ChangePhase tag) s = s\<lparr>detail := ''''\<rparr>"
    by simp
  then show ?thesis
    by (simp add: deliver_def outcome_def del: onEvent.simps)
qed

theorem unknown_tag_not_fatal_witness:
  "''bogus'' \<notin> set phaseTags
   \<and> errorMessage (step translations_en (Emit (ChangePhase ''bogus'')) runningScreen) = None
   \<and> task (step translations_en (Emit (ChangePhase ''bogus'')) runningScreen)
       = AwaitingRun Install
   \<and> listening (step translations_en (Emit (ChangePhase ''bogus'')) runningScreen)"
proof -
  have notin: "''bogus'' \<notin> set phaseTags"
    by (simp add: phaseTags_def)
  from unknown_tag_not_fatal [OF notin, of translations_en runningScreen] notin
  show ?thesis by (simp add: runningScreen_eq)
qed

text \<open>
  C5 as stated fails: after the unknown tag \<^verbatim>\<open>bogus\<close> the run is still
  running, with no error message for the user.
\<close>

theorem unknown_tag_counterexample:
  "outcome (step translations_en (Emit (ChangePhase ''bogus'')) runningScreen) = Running
   \<and> errorMessage (step translations_en (Emit (ChangePhase ''bogus'')) runningScreen) = None"
  by (simp add: runningScreen_eq deliver_def phaseLabel_def outcome_def)

section \<open>Progress and alerts\<close>







text \<open>
  C9. Closing the alert at one position removes that alert alone and keeps the
  others in their order: the queue becomes what was before the position
  followed by what was after it. For the queue A, B, C, closing B leaves A, C.
\<close>

theorem closing_one_alert:
  "alerts (step t (AlertClose i) s) = take i (alerts s) @ drop (Suc i) (alerts s)
   \<and> filterIndex i xs = take i xs @ drop (Suc i) xs
   \<and> filterIndex 1 [alertA, alertB, alertC] = [alertA, alertC]"
  by (simp add: onClose_def filterIndex_take_drop)

theorem closing_one_alert_witness:
  "alerts (step translations_en (AlertClose 1)
      (runningScreen\<lparr>alerts := [alertA, alertB, alertC]\<rparr>)) = [alertA, alertC]"
  using closing_one_alert [of translations_en 1
      "runningScreen\<lparr>alerts := [alertA, alertB, alertC]\<rparr>" "[alertA, alertB, alertC]"]
  by simp

section \<open>Start, completion and teardown of a run\<close>

text \<open>
  C7. The start of a run is guarded by the ref \<^verbatim>\<open>isInstalling\<close>: with the ref
  unset the effect sets it and starts the run; with the ref set the effect is
  a no-op; nothing ever unsets the ref. So, whatever happens to a mounted
  screen and in whatever order, \<^verbatim>\<open>run_installer\<close> is invoked at most once.
\<close>

theorem start_guard_one_shot:
  "(isInstalling s \<longrightarrow> step t (EffectRun mode) s = s)
   \<and> (\<not> isInstalling s \<longrightarrow>
        isInstalling (step t (EffectRun mode) s)
        \<and> task (step t (EffectRun mode) s) = AwaitingListen mode)
   \<and> (isInstalling s \<longrightarrow> isInstalling (step t a s))
   \<and> length (invoked (run t as (initialScreen t))) \<le> 1"
proof -
  have "guardInv (run t as (initialScreen t))"
    by (rule guardInv_run) (rule guardInv_initial)
  then have "length (invoked (run t as (initialScreen t))) \<le> 1"
    by (rule guardInv_invoked)
  then show ?thesis
    by (simp add: effect_def isInstalling_step)
qed

theorem start_guard_one_shot_witness:
  "isInstalling runningScreen
   \<and> step translations_en (EffectRun Update) runningScreen = runningScreen
   \<and> \<not> isInstalling (initialScreen translations_en)
   \<and> task (step translations_en (EffectRun Install) (initialScreen translations_en))
       = AwaitingListen Install
   \<and> length (invoked (run translations_en
        [EffectRun Install, EffectRun Install, ListenResolved, EffectRun Update, ListenResolved]
        (initialScreen translations_en))) \<le> 1"
proof -
  have started: "isInstalling runningScreen"
    by (simp add: runningScreen_eq)
  have fresh: "\<not> isInstalling (initialScreen translations_en)"
    by (simp add: initialScreen_def)
  from start_guard_one_shot [of runningScreen translations_en Update ListenResolved
      "[EffectRun Install, EffectRun Install, ListenResolved, EffectRun Update, ListenResolved]"]
    started
  have again: "step translations_en (EffectRun Update) runningScreen = runningScreen"
    and once: "length (invoked (run translations_en
        [EffectRun Install, EffectRun Install, ListenResolved, EffectRun Update, ListenResolved]
        (initialScreen translations_en))) \<le> 1"
    by blast+
  from start_guard_one_shot [of "initialScreen translations_en" translations_en Install
      ListenResolved "[]"] fresh
  have first: "task (step translations_en (EffectRun Install) (initialScreen translations_en))
       = AwaitingListen Install"
    by blast
  from started again fresh first once show ?thesis
    by blast
qed

text \<open>
  C4, as amended. When \<^verbatim>\<open>run_installer\<close> returns during a run started with
  mode \<open>mode\<close>, the screen is finished, the phase is the finish label of that
  mode, and the detail is empty; the progress keeps the value it had (it is
  not reset). When \<^verbatim>\<open>run_installer\<close> throws \<open>e\<close>, the only change to the
  state is the error message, which is \<open>e\<close> itself when \<open>e\<close> is a string and
  \<^verbatim>\<open>String(e)\<close> otherwise, so that the outcome is \<open>Errored\<close> with that
  message; the framing sentence for the mode is put in front of the message by
  the dialog and is not stored.
\<close>

theorem run_installer_settles:
  assumes "task s = AwaitingRun mode"
  shows "isFinished (step t RunResolved s)
    \<and> phase (step t RunResolved s)
        = (if mode = Install then phaseFinishInstall t else phaseFinishUpdate t)
    \<and> detail (step t RunResolved s) = ''''
    \<and> progress (step t RunResolved s) = progress s
    \<and> (errorMessage s = None \<longrightarrow> outcome (step t RunResolved s) = Finished)
    \<and> step t (RunRejected e) s = s\<lparr>errorMessage := Some (caughtMessage e), task := Settled\<rparr>
    \<and> outcome (step t (RunRejected e) s) = Errored (caughtMessage e)
    \<and> caughtMessage (JSString str) = str
    \<and> dialogContentText t m (step t (RunRejected e) s)
        = (if m = Install then installFailed t else updateFailed t) @ caughtMessage e"
  using assms
  by (simp add: runResolved_def runRejected_def outcome_def caughtMessage_def
        dialogContentText_def)

theorem run_installer_settles_witness:
  "task runningScreen = AwaitingRun Install \<and> errorMessage runningScreen = None
   \<and> phase (step translations_en RunResolved runningScreen) = ''Installation finished.''
   \<and> outcome (step translations_en RunResolved runningScreen) = Finished
   \<and> outcome (step translations_en (RunRejected (JSString ''disk full'')) runningScreen)
       = Errored ''disk full''
   \<and> dialogContentText translations_en Update
        (step translations_en (RunRejected (JSString ''disk full'')) runningScreen)
       = ''Update failed.\<newline>Details: disk full''"
proof -
  have pending: "task runningScreen = AwaitingRun Install"
    by (simp add: runningScreen_eq)
  have clean: "errorMessage runningScreen = None"
    by (simp add: runningScreen_eq)
  have labels: "phaseFinishInstall translations_en = ''Installation finished.''"
    "updateFailed translations_en = ''Update failed.\<newline>Details: ''"
    by (simp_all add: translations_en_def)
  note settles = run_installer_settles [OF pending, of translations_en
      "JSString ''disk full''" "''disk full''" Update]
  from settles have caught: "caughtMessage (JSString ''disk full'') = ''disk full''"
    by blast
  from settles labels(1)
  have label: "phase (step translations_en RunResolved runningScreen) = ''Installation finished.''"
    by simp
  from settles clean
  have fin: "outcome (step translations_en RunResolved runningScreen) = Finished"
    by blast
  from settles
  have "outcome (step translations_en (RunRejected (JSString ''disk full'')) runningScreen)
       = Errored (caughtMessage (JSString ''disk full''))"
    by blast
  with caught
  have err: "outcome (step translations_en (RunRejected (JSString ''disk full'')) runningScreen)
       = Errored ''disk full''"
    by (simp only:)
  from settles
  have "dialogContentText translations_en Update
        (step translations_en (RunRejected (JSString ''disk full'')) runningScreen)
       = (if Update = Install then installFailed translations_en
          else updateFailed translations_en) @ caughtMessage (JSString ''disk full'')"
    by blast
  with caught labels(2)
  have framed: "dialogContentText translations_en Update
        (step translations_en (RunRejected (JSString ''disk full'')) runningScreen)
       = ''Update failed.\<newline>Details: disk full''"
    by (simp del: step.simps)
  from pending clean label fin err framed show ?thesis
    by blast
qed

text \<open>
  C4 as stated fails: at the end of scenario A, an install whose last
  progress report was 1, the run is finished with the progress at 100, not 0.
\<close>

theorem finished_progress_counterexample:
  "outcome (run translations_en scenarioA (initialScreen translations_en)) = Finished
   \<and> progress (run translations_en scenarioA (initialScreen translations_en)) = 100
   \<and> progress (run translations_en scenarioA (initialScreen translations_en)) \<noteq> 0"
  using finishedScreen_eq by (simp add: finishedScreen_def outcome_def)




section \<open>Mode selection\<close>

text \<open>
  C8. When \<^verbatim>\<open>select_mode\<close> answers with \<^verbatim>\<open>isAccept = false\<close>, the caller
  sets the application's error message to the \<^verbatim>\<open>occurredError\<close> text followed
  by the result's error string, or by the literal \<^verbatim>\<open><unknown error>\<close> when the
  error is absent (or empty), and goes nowhere: the screen and the mode are
  what they were, so from the title screen no installer screen is mounted.
  When it answers with \<^verbatim>\<open>isAccept = true\<close>, the caller stores the mode and
  shows the installer screen with that mode. A screen mounted with a mode
  works with it for good: whatever happens to the screen afterwards, the task
  of the run holds that mode and \<^verbatim>\<open>run_installer\<close> has been invoked with no
  other. The application drops the mode only when the error is dismissed,
  which leads back to the title screen.
\<close>

theorem onModeSelect_result:
  "(\<not> isAccept result \<longrightarrow>
      errorMessage' (onModeSelect t mode result a)
        = Some (occurredError t @ orElse (error' result) ''<unknown error>'')
      \<and> screen (onModeSelect t mode result a) = screen a
      \<and> installerMode (onModeSelect t mode result a) = installerMode a
      \<and> getScreen (onModeSelect t mode result a) = getScreen a
      \<and> (screen a = Title \<longrightarrow> getScreen (onModeSelect t mode result a) = TitleScreenView))
   \<and> (str \<noteq> '''' \<longrightarrow> orElse (Some str) ''<unknown error>'' = str)
   \<and> orElse None ''<unknown error>'' = ''<unknown error>''
   \<and> (isAccept result \<longrightarrow>
      screen (onModeSelect t mode result a) = Installer
      \<and> installerMode (onModeSelect t mode result a) = Some mode
      \<and> getScreen (onModeSelect t mode result a) = InstallerScreenView (Some mode)
      \<and> errorMessage' (onModeSelect t mode result a) = errorMessage' a)
   \<and> (task (run t (EffectRun mode # as) (initialScreen t)) = AwaitingListen mode
        \<or> task (run t (EffectRun mode # as) (initialScreen t)) = AwaitingRun mode
        \<or> task (run t (EffectRun mode # as) (initialScreen t)) = Settled)
   \<and> (invoked (run t (EffectRun mode # as) (initialScreen t)) = []
        \<or> invoked (run t (EffectRun mode # as) (initialScreen t)) = [mode])
   \<and> getScreen (onDismissError a) = TitleScreenView"
proof -
  have "runsWith mode (run t as (step t (EffectRun mode) (initialScreen t)))"
    by (rule runsWith_run) (rule runsWith_start)
  then have frozen: "runsWith mode (run t (EffectRun mode # as) (initialScreen t))"
    by (simp only: run_Cons)
  from frozen have held:
    "task (run t (EffectRun mode # as) (initialScreen t)) = AwaitingListen mode
     \<or> task (run t (EffectRun mode # as) (initialScreen t)) = AwaitingRun mode
     \<or> task (run t (EffectRun mode # as) (initialScreen t)) = Settled"
    by (auto simp: runsWith_def split: RunTask.splits)
  from frozen have calls:
    "invoked (run t (EffectRun mode # as) (initialScreen t)) = []
     \<or> invoked (run t (EffectRun mode # as) (initialScreen t)) = [mode]"
    by (auto simp: runsWith_def split: RunTask.splits)
  have answer:
    "\<not> isAccept result \<longrightarrow>
      errorMessage' (onModeSelect t mode result a)
        = Some (occurredError t @ orElse (error' result) ''<unknown error>'')
      \<and> screen (onModeSelect t mode result a) = screen a
      \<and> installerMode (onModeSelect t mode result a) = installerMode a
      \<and> getScreen (onModeSelect t mode result a) = getScreen a
      \<and> (screen a = Title \<longrightarrow> getScreen (onModeSelect t mode result a) = TitleScreenView)"
    "isAccept result \<longrightarrow>
      screen (onModeSelect t mode result a) = Installer
      \<and> installerMode (onModeSelect t mode result a) = Some mode
      \<and> getScreen (onModeSelect t mode result a) = InstallerScreenView (Some mode)
      \<and> errorMessage' (onModeSelect t mode result a) = errorMessage' a"
    by (simp_all add: onModeSelect_def getScreen_def split: Screen.splits)
  have fallback:
    "str \<noteq> '''' \<longrightarrow> orElse (Some str) ''<unknown error>'' = str"
    "orElse None ''<unknown error>'' = ''<unknown error>''"
    by (simp_all add: orElse_def)
  have dismiss: "getScreen (onDismissError a) = TitleScreenView"
    by (simp add: onDismissError_def getScreen_def)
  from answer fallback held calls dismiss show ?thesis
    by blast
qed

theorem onModeSelect_result_witness:
  "\<not> isAccept declined \<and> screen initialApp = Title
   \<and> errorMessage' (onModeSelect translations_en Update declined initialApp)
       = Some ''An error has occurred.\<newline>Details: update is not available''
   \<and> getScreen (onModeSelect translations_en Update declined initialApp) = TitleScreenView
   \<and> isAccept accepted
   \<and> getScreen (onModeSelect translations_en Update accepted initialApp)
       = InstallerScreenView (Some Update)"
proof -
  have no: "\<not> isAccept declined" and yes: "isAccept accepted"
    by (simp_all add: declined_def accepted_def)
  have title: "screen initialApp = Title"
    by (simp add: initialApp_def)
  have wording: "occurredError translations_en @ orElse (error' declined) ''<unknown error>''
       = ''An error has occurred.\<newline>Details: update is not available''"
    by (simp add: translations_en_def declined_def orElse_def)
  note rejected = onModeSelect_result [of declined translations_en Update initialApp
      "''update is not available''" "[]"]
  note admitted = onModeSelect_result [of accepted translations_en Update initialApp
      "''update is not available''" "[]"]
  from rejected no
  have "errorMessage' (onModeSelect translations_en Update declined initialApp)
       = Some (occurredError translations_en @ orElse (error' declined) ''<unknown error>'')"
    by blast
  with wording
  have shown: "errorMessage' (onModeSelect translations_en Update declined initialApp)
       = Some ''An error has occurred.\<newline>Details: update is not available''"
    by (simp only:)
  from rejected no title
  have stays: "getScreen (onModeSelect translations_en Update declined initialApp)
       = TitleScreenView"
    by blast
  from admitted yes
  have goes: "getScreen (onModeSelect translations_en Update accepted initialApp)
       = InstallerScreenView (Some Update)"
    by blast
  from no title shown stays yes goes show ?thesis
    by blast
qed


end
